theory Spec2Isabelle
  imports Main
begin

section \<open>Data model\<close>

text \<open>
  The persisted records of \<^verbatim>\<open>internal/models\<close>. A \<^verbatim>\<open>primitive.ObjectID\<close> is
  modelled as a natural number whose zero is the zero ObjectID (\<^verbatim>\<open>IsZero\<close>). The three time
  stamps of every record are left out: no operation of the movie cache or of the
  recommendation engine reads them.
\<close>

type_synonym ObjectID = nat

record Movie =
  ID :: ObjectID
  IMDbID :: string
  Title :: string
  Year :: string
  Genre :: string
  Director :: string
  Plot :: string
  Poster :: string
  Runtime :: string
  IMDbRating :: string

record Rating =
  r_UserID :: ObjectID
  r_MovieID :: ObjectID
  r_Rating :: int

record Watchlist =
  wl_UserID :: ObjectID
  wl_MovieID :: ObjectID

text \<open>The decoded body of a detail reply of the external catalog (\<^verbatim>\<open>OMDbResponse\<close>).\<close>

record OMDbResponse =
  omdb_Title :: string
  omdb_Year :: string
  omdb_IMDbID :: string
  omdb_Genre :: string
  omdb_Director :: string
  omdb_Plot :: string
  omdb_Poster :: string
  omdb_Runtime :: string
  omdb_IMDbRating :: string
  omdb_Response :: string
  omdb_Error :: string

text \<open>
  What \<^verbatim>\<open>client.Do\<close> followed by the JSON decoder can deliver: a transport failure, or a
  status code with a body that decodes (\<open>Some\<close>) or does not (\<open>None\<close>).
\<close>

datatype http_reply = TransportError | HttpReply nat "OMDbResponse option"

text \<open>Every error return and the one runtime panic of the modelled functions.\<close>

datatype error =
    StorageError
  | BadRegex
  | DuplicateKey
  | ApiKeyNotConfigured
  | RequestFailed
  | BadStatus nat
  | DecodeFailed
  | OMDbApiError string
  | OMDbErrorResponse
  | MissingIMDbID
  | MissingTitle
  | MissingGenre
  | CacheFailed error
  | EmptyIMDbID
  | PanicSliceBounds

text \<open>
  The queries the repositories send to the database. The field \<open>fault\<close> of the world says
  which of them the driver answers with an I/O error; a query gets the same answer every
  time it is sent.
\<close>

datatype query =
    QFindMovie string
  | QFindAllMovies
  | QFindMoviesByGenre string
  | QFindRatings ObjectID
  | QFindWatchlists ObjectID
  | QAggregateGenres ObjectID
  | QInsertMovie

text \<open>
  The world the code runs in: the three collections in natural (insertion) order, the
  configured API key, the external catalog with the log of the detail requests sent to
  it, the counter behind \<^verbatim>\<open>primitive.NewObjectID\<close>, and the behaviour of the database
  server that the code leaves open: which queries fail, what a \<^verbatim>\<open>$regex\<close> pattern matches
  (\<open>None\<close> for a pattern the server rejects), and the order in which \<^verbatim>\<open>$group\<close> emits its
  groups (ascending \<open>group_hash\<close>).
\<close>

record world =
  movies :: "Movie list"
  ratings :: "Rating list"
  watchlists :: "Watchlist list"
  apiKey :: string
  omdb :: "string \<Rightarrow> http_reply"
  omdb_calls :: "string list"
  next_oid :: nat
  fault :: "query \<Rightarrow> bool"
  regex :: "string \<Rightarrow> (string \<Rightarrow> bool) option"
  group_hash :: "string \<Rightarrow> nat"

section \<open>Strings\<close>

text \<open>
  Strings are byte lists, as in Go: a character outside ASCII is the several bytes of its
  UTF-8 encoding. \<open>utf8_encode\<close> encodes a code point below \<open>0x10000\<close>.
\<close>

definition utf8_encode :: "nat \<Rightarrow> string" where
  "utf8_encode c =
     (if c < 0x80 then [char_of c]
      else if c < 0x800 then [char_of (0xC0 + c div 64), char_of (0x80 + c mod 64)]
      else [char_of (0xE0 + c div 4096), char_of (0x80 + (c div 64) mod 64),
            char_of (0x80 + c mod 64)])"

text \<open>
  Trimming removes, from one end of a string and as long as there is one, an occurrence
  of a member of a cut set of encoded characters. \<open>match_width\<close> is the length of the
  member of the cut set that the string starts with, or 0. \<open>trim_left\<close> drops the matched
  member, whose first byte is the head of the string, and goes on with the rest.
\<close>

definition has_prefix :: "string \<Rightarrow> string \<Rightarrow> bool" where
  "has_prefix e s = (take (length e) s = e)"

definition has_suffix :: "string \<Rightarrow> string \<Rightarrow> bool" where
  "has_suffix e s = has_prefix (rev e) (rev s)"

fun match_width :: "string list \<Rightarrow> string \<Rightarrow> nat" where
  "match_width [] s = 0"
| "match_width (e # es) s = (if has_prefix e s then length e else match_width es s)"

fun trim_left :: "string list \<Rightarrow> string \<Rightarrow> string" where
  "trim_left cutset [] = []"
| "trim_left cutset (c # cs) =
     (if match_width cutset (c # cs) = 0 then c # cs
      else trim_left cutset (drop (match_width cutset (c # cs) - 1) cs))"

definition trim_right :: "string list \<Rightarrow> string \<Rightarrow> string" where
  "trim_right cutset s = rev (trim_left (map rev cutset) (rev s))"

text \<open>
  \<^verbatim>\<open>strings.TrimSpace\<close> removes the leading and the trailing runes for which
  \<^verbatim>\<open>unicode.IsSpace\<close> holds: the code points of \<open>White_Space\<close>, whose encodings are
  \<open>White_Space_utf8\<close>. Go decodes the runes from the front and from the back; a byte
  sequence that is not the valid encoding of a white space rune stops the trimming on
  its side, which is what matching the encodings as prefixes and suffixes does.
\<close>

definition White_Space :: "nat list" where
  "White_Space =
     [0x09, 0x0A, 0x0B, 0x0C, 0x0D, 0x20, 0x85, 0xA0, 0x1680,
      0x2000, 0x2001, 0x2002, 0x2003, 0x2004, 0x2005, 0x2006, 0x2007, 0x2008, 0x2009, 0x200A,
      0x2028, 0x2029, 0x202F, 0x205F, 0x3000]"

definition White_Space_utf8 :: "string list" where
  "White_Space_utf8 =
     [[CHR 0x09], [CHR 0x0A], [CHR 0x0B], [CHR 0x0C], [CHR 0x0D], [CHR 0x20],
      [CHR 0xC2, CHR 0x85], [CHR 0xC2, CHR 0xA0], [CHR 0xE1, CHR 0x9A, CHR 0x80],
      [CHR 0xE2, CHR 0x80, CHR 0x80], [CHR 0xE2, CHR 0x80, CHR 0x81],
      [CHR 0xE2, CHR 0x80, CHR 0x82], [CHR 0xE2, CHR 0x80, CHR 0x83],
      [CHR 0xE2, CHR 0x80, CHR 0x84], [CHR 0xE2, CHR 0x80, CHR 0x85],
      [CHR 0xE2, CHR 0x80, CHR 0x86], [CHR 0xE2, CHR 0x80, CHR 0x87],
      [CHR 0xE2, CHR 0x80, CHR 0x88], [CHR 0xE2, CHR 0x80, CHR 0x89],
      [CHR 0xE2, CHR 0x80, CHR 0x8A], [CHR 0xE2, CHR 0x80, CHR 0xA8],
      [CHR 0xE2, CHR 0x80, CHR 0xA9], [CHR 0xE2, CHR 0x80, CHR 0xAF],
      [CHR 0xE2, CHR 0x81, CHR 0x9F], [CHR 0xE3, CHR 0x80, CHR 0x80]]"

definition TrimSpace :: "string \<Rightarrow> string" where
  "TrimSpace s = trim_right White_Space_utf8 (trim_left White_Space_utf8 s)"

section \<open>The movie repository\<close>

text \<open>\<^verbatim>\<open>collection.FindOne(ctx, bson.M{"imdb_id": imdbID})\<close>: \<open>Inr None\<close> is
  \<^verbatim>\<open>mongo.ErrNoDocuments\<close>.\<close>

definition FindOne_imdb_id :: "world \<Rightarrow> string \<Rightarrow> error + Movie option" where
  "FindOne_imdb_id w imdbID =
     (if fault w (QFindMovie imdbID) then Inl StorageError
      else Inr (find (\<lambda>m. IMDbID m = imdbID) (movies w)))"

text \<open>\<^verbatim>\<open>collection.InsertOne\<close> on the movies collection, with its unique indexes on
  \<^verbatim>\<open>_id\<close> and \<^verbatim>\<open>imdb_id\<close>.\<close>

definition InsertOne :: "world \<Rightarrow> Movie \<Rightarrow> error + world" where
  "InsertOne w m =
     (if fault w QInsertMovie then Inl StorageError
      else if \<exists>m' \<in> set (movies w). ID m' = ID m \<or> IMDbID m' = IMDbID m then Inl DuplicateKey
      else Inr (w\<lparr>movies := movies w @ [m]\<rparr>))"

definition NewObjectID :: "world \<Rightarrow> ObjectID \<times> world" where
  "NewObjectID w = (Suc (next_oid w), w\<lparr>next_oid := Suc (next_oid w)\<rparr>)"

text \<open>\<^verbatim>\<open>MovieRepository.FindByIMDbID\<close>: a miss is a nil record with a nil error.\<close>

definition FindByIMDbID :: "world \<Rightarrow> string \<Rightarrow> error + Movie option" where
  "FindByIMDbID w imdbID =
     (case FindOne_imdb_id w imdbID of
        Inl e \<Rightarrow> Inl e
      | Inr None \<Rightarrow> Inr None
      | Inr (Some m) \<Rightarrow> Inr (Some m))"

text \<open>\<^verbatim>\<open>MovieRepository.FindAll\<close>: no filter, no sort.\<close>

definition FindAll :: "world \<Rightarrow> error + Movie list" where
  "FindAll w = (if fault w QFindAllMovies then Inl StorageError else Inr (movies w))"

text \<open>\<^verbatim>\<open>MovieRepository.Create\<close>: a fresh identifier only when the record has none.\<close>

definition Create :: "world \<Rightarrow> Movie \<Rightarrow> (error + Movie) \<times> world" where
  "Create w movie =
     (let (m1, w1) = (if ID movie = 0
                      then (movie\<lparr>ID := fst (NewObjectID w)\<rparr>, snd (NewObjectID w))
                      else (movie, w))
      in case InsertOne w1 m1 of
           Inl e \<Rightarrow> (Inl e, w1)
         | Inr w2 \<Rightarrow> (Inr m1, w2))"

text \<open>
  The detail request to the external catalog, as it is written out three times in the
  source (\<^verbatim>\<open>GetOrCreateByIMDbID\<close>, \<^verbatim>\<open>fetchMovieDetails\<close>, \<^verbatim>\<open>GetMovieDetails\<close>): send the
  request, check the transport status, decode, check the provider's \<^verbatim>\<open>Response\<close> flag.
  Every request is appended to \<open>omdb_calls\<close>. Building the request
  (\<^verbatim>\<open>http.NewRequestWithContext\<close>) is taken to succeed: the identifier is query-escaped and
  the configured key is taken to be free of control characters.
\<close>

definition omdb_detail :: "world \<Rightarrow> string \<Rightarrow> (error + OMDbResponse) \<times> world" where
  "omdb_detail w imdbID =
     (let w' = w\<lparr>omdb_calls := omdb_calls w @ [imdbID]\<rparr> in
      case omdb w imdbID of
        TransportError \<Rightarrow> (Inl RequestFailed, w')
      | HttpReply status body \<Rightarrow>
          if status \<noteq> 200 then (Inl (BadStatus status), w')
          else (case body of
                  None \<Rightarrow> (Inl DecodeFailed, w')
                | Some r \<Rightarrow>
                    if omdb_Response r = ''False''
                    then (if omdb_Error r \<noteq> [] then (Inl (OMDbApiError (omdb_Error r)), w')
                          else (Inl OMDbErrorResponse, w'))
                    else (Inr r, w')))"

text \<open>Lines 338 to 364 of \<^verbatim>\<open>GetOrCreateByIMDbID\<close>: validate the required fields, then
  construct the record with a fresh identifier and trimmed fields.\<close>

definition validate_and_build :: "world \<Rightarrow> OMDbResponse \<Rightarrow> (error + Movie) \<times> world" where
  "validate_and_build w r =
     (if omdb_IMDbID r = [] then (Inl MissingIMDbID, w)
      else if omdb_Title r = [] then (Inl MissingTitle, w)
      else if omdb_Genre r = [] then (Inl MissingGenre, w)
      else (Inr \<lparr>ID = fst (NewObjectID w),
                 IMDbID = omdb_IMDbID r,
                 Title = TrimSpace (omdb_Title r),
                 Year = TrimSpace (omdb_Year r),
                 Genre = TrimSpace (omdb_Genre r),
                 Director = TrimSpace (omdb_Director r),
                 Plot = TrimSpace (omdb_Plot r),
                 Poster = TrimSpace (omdb_Poster r),
                 Runtime = TrimSpace (omdb_Runtime r),
                 IMDbRating = TrimSpace (omdb_IMDbRating r)\<rparr>,
            snd (NewObjectID w)))"

text \<open>
  \<^verbatim>\<open>GetOrCreateByIMDbID\<close> in its two halves. Every database and HTTP call is one atomic
  step on the shared world, so two concurrent callers are an interleaving of their
  halves. \<open>lookup_or_fetch\<close> is lines 285 to 364: it either returns to the caller or has a
  record to insert. \<open>insert_and_return\<close> is lines 366 to 373.
\<close>

datatype phase = Return "error + Movie" | Insert Movie

definition lookup_or_fetch :: "world \<Rightarrow> string \<Rightarrow> phase \<times> world" where
  "lookup_or_fetch w imdbID =
     (case FindOne_imdb_id w imdbID of
        Inr (Some movie) \<Rightarrow> (Return (Inr movie), w)
      | Inl e \<Rightarrow> (Return (Inl e), w)
      | Inr None \<Rightarrow>
          if apiKey w = [] then (Return (Inl ApiKeyNotConfigured), w)
          else (case omdb_detail w imdbID of
                  (Inl e, w1) \<Rightarrow> (Return (Inl e), w1)
                | (Inr r, w1) \<Rightarrow>
                    (case validate_and_build w1 r of
                       (Inl e, w2) \<Rightarrow> (Return (Inl e), w2)
                     | (Inr movie, w2) \<Rightarrow> (Insert movie, w2))))"

definition insert_and_return :: "world \<Rightarrow> Movie \<Rightarrow> (error + Movie) \<times> world" where
  "insert_and_return w movie =
     (case InsertOne w movie of
        Inl e \<Rightarrow> (Inl (CacheFailed e), w)
      | Inr w' \<Rightarrow> (Inr movie, w'))"

definition GetOrCreateByIMDbID :: "world \<Rightarrow> string \<Rightarrow> (error + Movie) \<times> world" where
  "GetOrCreateByIMDbID w imdbID =
     (case lookup_or_fetch w imdbID of
        (Return r, w') \<Rightarrow> (r, w')
      | (Insert movie, w') \<Rightarrow> insert_and_return w' movie)"

section \<open>The movie service\<close>

text \<open>\<^verbatim>\<open>MovieService.GetMovieDetails\<close>. The service validates the identifier and the title
  of the reply, not its genre, and persists through \<^verbatim>\<open>MovieRepository.Create\<close>.\<close>

definition GetMovieDetails :: "world \<Rightarrow> string \<Rightarrow> (error + Movie option) \<times> world" where
  "GetMovieDetails w imdbID =
     (if TrimSpace imdbID = [] then (Inl EmptyIMDbID, w)
      else case FindByIMDbID w imdbID of
        Inr movie \<Rightarrow> (Inr movie, w)
      | Inl _ \<Rightarrow>
          if apiKey w = [] then (Inl ApiKeyNotConfigured, w)
          else (case omdb_detail w imdbID of
                  (Inl e, w1) \<Rightarrow> (Inl e, w1)
                | (Inr r, w1) \<Rightarrow>
                    if omdb_IMDbID r = [] then (Inl MissingIMDbID, w1)
                    else if omdb_Title r = [] then (Inl MissingTitle, w1)
                    else (case Create (snd (NewObjectID w1))
                                 \<lparr>ID = fst (NewObjectID w1),
                                  IMDbID = omdb_IMDbID r,
                                  Title = TrimSpace (omdb_Title r),
                                  Year = TrimSpace (omdb_Year r),
                                  Genre = TrimSpace (omdb_Genre r),
                                  Director = TrimSpace (omdb_Director r),
                                  Plot = TrimSpace (omdb_Plot r),
                                  Poster = TrimSpace (omdb_Poster r),
                                  Runtime = TrimSpace (omdb_Runtime r),
                                  IMDbRating = TrimSpace (omdb_IMDbRating r)\<rparr> of
                            (Inl e, w2) \<Rightarrow> (Inl (CacheFailed e), w2)
                          | (Inr m, w2) \<Rightarrow> (Inr (Some m), w2))))"

section \<open>The database server's part of the recommendation queries\<close>

text \<open>
  A stable insertion sort: \<open>precedes a b\<close> says that \<open>a\<close> has to come strictly before \<open>b\<close>;
  elements that neither precede the other keep the order of the input.
\<close>

fun insert_by :: "('a \<Rightarrow> 'a \<Rightarrow> bool) \<Rightarrow> 'a \<Rightarrow> 'a list \<Rightarrow> 'a list" where
  "insert_by precedes x [] = [x]"
| "insert_by precedes x (y # ys) =
     (if precedes y x then y # insert_by precedes x ys else x # y # ys)"

definition sort_by :: "('a \<Rightarrow> 'a \<Rightarrow> bool) \<Rightarrow> 'a list \<Rightarrow> 'a list" where
  "sort_by precedes xs = foldr (insert_by precedes) xs []"

text \<open>
  The field \<^verbatim>\<open>imdb_rating\<close> is stored as a string, and the server compares strings byte by
  byte: \<open>bytes_less a b\<close> is the lexicographic order on the character codes.
\<close>

fun bytes_less :: "string \<Rightarrow> string \<Rightarrow> bool" where
  "bytes_less [] [] = False"
| "bytes_less [] (b # bs) = True"
| "bytes_less (a # as) [] = False"
| "bytes_less (a # as) (b # bs) =
     ((of_char a :: nat) < of_char b \<or> (a = b \<and> bytes_less as bs))"

text \<open>\<^verbatim>\<open>SetSort(bson.D{{Key: "imdb_rating", Value: -1}})\<close>: descending on the stored string.\<close>

definition sort_imdb_rating_desc :: "Movie list \<Rightarrow> Movie list" where
  "sort_imdb_rating_desc ms = sort_by (\<lambda>a b. bytes_less (IMDbRating b) (IMDbRating a)) ms"

text \<open>
  The aggregation operators of \<^verbatim>\<open>GetHighRatedGenres\<close>. \<^verbatim>\<open>$split\<close> cuts at every
  delimiter and keeps empty pieces; \<^verbatim>\<open>$trim\<close> is given no \<^verbatim>\<open>chars\<close>.
\<close>

fun split_on :: "char \<Rightarrow> string \<Rightarrow> string list" where
  "split_on d [] = [[]]"
| "split_on d (c # cs) =
     (if c = d then [] # split_on d cs
      else (case split_on d cs of
              [] \<Rightarrow> [[c]]
            | t # ts \<Rightarrow> (c # t) # ts))"

text \<open>
  The characters that \<^verbatim>\<open>$trim\<close> removes when no \<^verbatim>\<open>chars\<close> is given: the null
  character, the ASCII white space, the no-break space, the Ogham space mark and the
  spaces from U+2000 to U+200A. The server strips their encodings from the left, then
  from the right.
\<close>

definition mongo_whitespace :: "nat list" where
  "mongo_whitespace =
     [0x00, 0x20, 0x09, 0x0A, 0x0B, 0x0C, 0x0D, 0xA0, 0x1680,
      0x2000, 0x2001, 0x2002, 0x2003, 0x2004, 0x2005, 0x2006, 0x2007, 0x2008, 0x2009, 0x200A]"

definition mongo_whitespace_utf8 :: "string list" where
  "mongo_whitespace_utf8 =
     [[CHR 0x00], [CHR 0x20], [CHR 0x09], [CHR 0x0A], [CHR 0x0B], [CHR 0x0C], [CHR 0x0D],
      [CHR 0xC2, CHR 0xA0], [CHR 0xE1, CHR 0x9A, CHR 0x80],
      [CHR 0xE2, CHR 0x80, CHR 0x80], [CHR 0xE2, CHR 0x80, CHR 0x81],
      [CHR 0xE2, CHR 0x80, CHR 0x82], [CHR 0xE2, CHR 0x80, CHR 0x83],
      [CHR 0xE2, CHR 0x80, CHR 0x84], [CHR 0xE2, CHR 0x80, CHR 0x85],
      [CHR 0xE2, CHR 0x80, CHR 0x86], [CHR 0xE2, CHR 0x80, CHR 0x87],
      [CHR 0xE2, CHR 0x80, CHR 0x88], [CHR 0xE2, CHR 0x80, CHR 0x89],
      [CHR 0xE2, CHR 0x80, CHR 0x8A]]"

definition mongo_trim :: "string \<Rightarrow> string" where
  "mongo_trim s = trim_right mongo_whitespace_utf8 (trim_left mongo_whitespace_utf8 s)"

text \<open>The distinct elements of a list in the order of their first occurrence.\<close>

definition first_seen :: "'a list \<Rightarrow> 'a list" where
  "first_seen xs = rev (remdups (rev xs))"

text \<open>
  A \<^verbatim>\<open>$regex\<close> pattern without metacharacters and with option \<^verbatim>\<open>i\<close> matches the texts that
  contain it, letter case ignored (ASCII). This is the matcher of the example worlds;
  the theorems below hold for every matcher.
\<close>

definition to_lower :: "char \<Rightarrow> char" where
  "to_lower c = (if (65::nat) \<le> of_char c \<and> (of_char c :: nat) \<le> 90
                 then char_of ((of_char c :: nat) + 32) else c)"

fun contains :: "string \<Rightarrow> string \<Rightarrow> bool" where
  "contains p [] = (p = [])"
| "contains p (c # cs) = (take (length p) (c # cs) = p \<or> contains p cs)"

definition literal_ci :: "string \<Rightarrow> (string \<Rightarrow> bool) option" where
  "literal_ci p = Some (\<lambda>text. contains (map to_lower p) (map to_lower text))"

section \<open>The recommendation repository\<close>

text \<open>
  \<^verbatim>\<open>GetHighRatedGenres\<close>, stage by stage: match the user's ratings at or above the
  threshold, join each with its movie, split the genre field at commas, trim, drop the
  empty tokens, group and count, sort by descending count. \<^verbatim>\<open>$group\<close> promises no order
  of its groups and \<^verbatim>\<open>$sort\<close> none among equal counts; the groups are emitted by
  ascending \<open>group_hash\<close>, and any order of the distinct genres that descends in the
  count is the result for a suitable \<open>group_hash\<close>.
\<close>

definition genre_field_tokens :: "string \<Rightarrow> string list" where
  "genre_field_tokens genre =
     filter (\<lambda>g. g \<noteq> []) (map mongo_trim (split_on CHR '','' genre))"

definition qualifying_ratings :: "world \<Rightarrow> ObjectID \<Rightarrow> int \<Rightarrow> Rating list" where
  "qualifying_ratings w userID threshold =
     filter (\<lambda>r. r_UserID r = userID \<and> threshold \<le> r_Rating r) (ratings w)"

definition genre_tokens :: "world \<Rightarrow> ObjectID \<Rightarrow> int \<Rightarrow> string list" where
  "genre_tokens w userID threshold =
     (let joined = concat (map (\<lambda>r. filter (\<lambda>m. ID m = r_MovieID r) (movies w))
                               (qualifying_ratings w userID threshold))
      in concat (map (\<lambda>m. genre_field_tokens (Genre m)) joined))"

definition group_count :: "world \<Rightarrow> string list \<Rightarrow> (string \<times> nat) list" where
  "group_count w tokens =
     map (\<lambda>g. (g, count_list tokens g))
         (sort_by (\<lambda>a b. group_hash w a < group_hash w b) (first_seen tokens))"

definition sort_count_desc :: "(string \<times> nat) list \<Rightarrow> (string \<times> nat) list" where
  "sort_count_desc gs = sort_by (\<lambda>a b. snd b < snd a) gs"

definition GetHighRatedGenres :: "world \<Rightarrow> ObjectID \<Rightarrow> int \<Rightarrow> error + string list" where
  "GetHighRatedGenres w userID threshold =
     (if fault w (QAggregateGenres userID) then Inl StorageError
      else Inr (map fst (sort_count_desc (group_count w (genre_tokens w userID threshold)))))"

definition GetRatedMovieIDs :: "world \<Rightarrow> ObjectID \<Rightarrow> error + ObjectID list" where
  "GetRatedMovieIDs w userID =
     (if fault w (QFindRatings userID) then Inl StorageError
      else Inr (map r_MovieID (filter (\<lambda>r. r_UserID r = userID) (ratings w))))"

definition GetWatchlistMovieIDs :: "world \<Rightarrow> ObjectID \<Rightarrow> error + ObjectID list" where
  "GetWatchlistMovieIDs w userID =
     (if fault w (QFindWatchlists userID) then Inl StorageError
      else Inr (map wl_MovieID (filter (\<lambda>e. wl_UserID e = userID) (watchlists w))))"

text \<open>
  \<^verbatim>\<open>GetMoviesToExclude\<close> collects both lists as the keys of a Go map and reads the keys
  back. Go fixes no iteration order; the model lists the keys by first insertion. Both
  users of the result (\<^verbatim>\<open>$nin\<close> and the exclusion map of the fallback) read it as a set.
\<close>

definition GetMoviesToExclude :: "world \<Rightarrow> ObjectID \<Rightarrow> error + ObjectID list" where
  "GetMoviesToExclude w userID =
     (case GetRatedMovieIDs w userID of
        Inl e \<Rightarrow> Inl e
      | Inr ratedIDs \<Rightarrow>
          (case GetWatchlistMovieIDs w userID of
             Inl e \<Rightarrow> Inl e
           | Inr watchlistIDs \<Rightarrow> Inr (first_seen (ratedIDs @ watchlistIDs))))"

text \<open>\<^verbatim>\<open>GetMoviesByGenreExcludingIDs\<close>: the \<^verbatim>\<open>$nin\<close> clause is added only for a non-empty
  exclusion list, the limit is set only when positive.\<close>

definition GetMoviesByGenreExcludingIDs ::
    "world \<Rightarrow> string \<Rightarrow> ObjectID list \<Rightarrow> int \<Rightarrow> error + Movie list" where
  "GetMoviesByGenreExcludingIDs w genre excludeIDs limit =
     (if fault w (QFindMoviesByGenre genre) then Inl StorageError
      else (case regex w genre of
              None \<Rightarrow> Inl BadRegex
            | Some matches \<Rightarrow>
                (let found = filter (\<lambda>m. matches (Genre m) \<and>
                                         (excludeIDs = [] \<or> ID m \<notin> set excludeIDs)) (movies w);
                     sorted = sort_imdb_rating_desc found
                 in Inr (if 0 < limit then take (nat limit) sorted else sorted))))"

section \<open>The recommendation service\<close>

text \<open>The inner loop of \<^verbatim>\<open>generateGenreBasedRecommendations\<close>: append while the list is
  shorter than the limit.\<close>

fun append_movies :: "int \<Rightarrow> Movie list \<Rightarrow> Movie list \<Rightarrow> Movie list" where
  "append_movies limit recommendations [] = recommendations"
| "append_movies limit recommendations (movie # rest) =
     (if limit \<le> int (length recommendations) then recommendations
      else append_movies limit (recommendations @ [movie]) rest)"

text \<open>The outer loop: stop at the limit, skip a genre whose query fails.\<close>

fun genre_loop :: "world \<Rightarrow> ObjectID list \<Rightarrow> int \<Rightarrow> Movie list \<Rightarrow> string list \<Rightarrow> Movie list" where
  "genre_loop w excludeMovieIDs limit recommendations [] = recommendations"
| "genre_loop w excludeMovieIDs limit recommendations (genre # rest) =
     (if limit \<le> int (length recommendations) then recommendations
      else (case GetMoviesByGenreExcludingIDs w genre excludeMovieIDs
                   (limit - int (length recommendations)) of
              Inl _ \<Rightarrow> genre_loop w excludeMovieIDs limit recommendations rest
            | Inr found \<Rightarrow>
                genre_loop w excludeMovieIDs limit
                  (append_movies limit recommendations found) rest))"

definition generateGenreBasedRecommendations ::
    "world \<Rightarrow> string list \<Rightarrow> ObjectID list \<Rightarrow> int \<Rightarrow> Movie list" where
  "generateGenreBasedRecommendations w preferredGenres excludeMovieIDs limit =
     genre_loop w excludeMovieIDs limit [] preferredGenres"

text \<open>The loop of \<^verbatim>\<open>getFallbackRecommendations\<close> over \<^verbatim>\<open>FindAll\<close>.\<close>

fun fallback_loop :: "ObjectID list \<Rightarrow> int \<Rightarrow> Movie list \<Rightarrow> Movie list \<Rightarrow> Movie list" where
  "fallback_loop excludeMovieIDs limit fallback [] = fallback"
| "fallback_loop excludeMovieIDs limit fallback (movie # rest) =
     (if limit \<le> int (length fallback) then fallback
      else if ID movie \<notin> set excludeMovieIDs
           then fallback_loop excludeMovieIDs limit (fallback @ [movie]) rest
           else fallback_loop excludeMovieIDs limit fallback rest)"

definition getFallbackRecommendations :: "world \<Rightarrow> ObjectID list \<Rightarrow> int \<Rightarrow> Movie list" where
  "getFallbackRecommendations w excludeMovieIDs limit =
     (case FindAll w of
        Inl _ \<Rightarrow> []
      | Inr allMovies \<Rightarrow> fallback_loop excludeMovieIDs limit [] allMovies)"

text \<open>\<^verbatim>\<open>limitResults\<close>: \<^verbatim>\<open>movies[:limit]\<close> panics for a negative \<^verbatim>\<open>limit\<close>.\<close>

definition limitResults :: "Movie list \<Rightarrow> int \<Rightarrow> error + Movie list" where
  "limitResults ms limit =
     (if int (length ms) \<le> limit then Inr ms
      else if limit < 0 then Inl PanicSliceBounds
      else Inr (take (nat limit) ms))"

definition GetRecommendations :: "world \<Rightarrow> ObjectID \<Rightarrow> int \<Rightarrow> error + Movie list" where
  "GetRecommendations w userID limit =
     (case GetHighRatedGenres w userID 4 of
        Inl e \<Rightarrow> Inl e
      | Inr preferredGenres \<Rightarrow>
          (case GetMoviesToExclude w userID of
             Inl e \<Rightarrow> Inl e
           | Inr excludeMovieIDs \<Rightarrow>
               (let recommendations =
                      generateGenreBasedRecommendations w preferredGenres excludeMovieIDs limit;
                    recommendations' =
                      (if int (length recommendations) < limit
                       then recommendations @
                            getFallbackRecommendations w excludeMovieIDs
                              (limit - int (length recommendations))
                       else recommendations)
                in limitResults recommendations' limit)))"

section \<open>Example worlds\<close>

text \<open>An external catalog with one well-formed title, which it also returns, under its
  canonical identifier, for the upper-case spelling of the identifier; one title that
  is white space only; one title without a genre; and an outage for every other
  identifier.\<close>

definition inception_reply :: OMDbResponse where
  "inception_reply =
     \<lparr>omdb_Title = ''Inception'', omdb_Year = ''2010'', omdb_IMDbID = ''tt1375666'',
      omdb_Genre = ''Action, Sci-Fi'', omdb_Director = ''Christopher Nolan'',
      omdb_Plot = ''A thief enters dreams.'', omdb_Poster = ''N/A'', omdb_Runtime = ''148 min'',
      omdb_IMDbRating = ''8.8'', omdb_Response = ''True'', omdb_Error = []\<rparr>"

definition blank_title_reply :: OMDbResponse where
  "blank_title_reply =
     inception_reply\<lparr>omdb_Title := ''   '', omdb_IMDbID := ''tt0000002''\<rparr>"

definition no_genre_reply :: OMDbResponse where
  "no_genre_reply =
     inception_reply\<lparr>omdb_Genre := [], omdb_IMDbID := ''tt0000004''\<rparr>"

definition catalog :: "string \<Rightarrow> http_reply" where
  "catalog imdbID =
     (if imdbID = ''tt1375666'' \<or> imdbID = ''TT1375666''
      then HttpReply 200 (Some inception_reply)
      else if imdbID = ''tt0000002'' then HttpReply 200 (Some blank_title_reply)
      else if imdbID = ''tt0000004'' then HttpReply 200 (Some no_genre_reply)
      else TransportError)"

definition inception :: "ObjectID \<Rightarrow> Movie" where
  "inception oid =
     \<lparr>ID = oid, IMDbID = ''tt1375666'', Title = ''Inception'', Year = ''2010'',
      Genre = ''Action, Sci-Fi'', Director = ''Christopher Nolan'',
      Plot = ''A thief enters dreams.'', Poster = ''N/A'', Runtime = ''148 min'',
      IMDbRating = ''8.8''\<rparr>"

definition empty_world :: world where
  "empty_world =
     \<lparr>movies = [], ratings = [], watchlists = [], apiKey = ''key'', omdb = catalog,
      omdb_calls = [], next_oid = 0, fault = (\<lambda>q. False), regex = literal_ci,
      group_hash = (\<lambda>g. 0)\<rparr>"

definition cached_world :: world where
  "cached_world =
     empty_world\<lparr>movies := [inception 1], omdb_calls := [''tt1375666''], next_oid := 1\<rparr>"

text \<open>Two callers of \<^verbatim>\<open>GetOrCreateByIMDbID("tt1375666")\<close> on the empty store: both run
  the lookup and the fetch before either inserts.\<close>

definition race_first :: "phase \<times> world" where
  "race_first = lookup_or_fetch empty_world ''tt1375666''"

definition race_second :: "phase \<times> world" where
  "race_second = lookup_or_fetch (snd race_first) ''tt1375666''"

definition race_first_done :: "(error + Movie) \<times> world" where
  "race_first_done = insert_and_return (snd race_second) (inception 1)"

definition race_second_done :: "(error + Movie) \<times> world" where
  "race_second_done = insert_and_return (snd race_first_done) (inception 2)"

text \<open>A store of four movies. User 7 has given movie 1 five stars and has movie 4 on the
  watchlist; user 9 has neither ratings nor a watchlist.\<close>

definition film :: "ObjectID \<Rightarrow> string \<Rightarrow> string \<Rightarrow> Movie" where
  "film oid genre rating =
     \<lparr>ID = oid, IMDbID = ''tt'' @ replicate oid CHR ''1'', Title = ''Film'', Year = ''2000'',
      Genre = genre, Director = ''D'', Plot = ''P'', Poster = ''N/A'', Runtime = ''90 min'',
      IMDbRating = rating\<rparr>"

definition rec_world :: world where
  "rec_world =
     \<lparr>movies = [film 1 ''Action, Sci-Fi'' ''8.0'', film 2 ''Action, Sci-Fi'' ''7.1'',
                film 3 ''Sci-Fi'' ''N/A'', film 4 ''Drama'' ''8.8''],
      ratings = [\<lparr>r_UserID = 7, r_MovieID = 1, r_Rating = 5\<rparr>],
      watchlists = [\<lparr>wl_UserID = 7, wl_MovieID = 4\<rparr>],
      apiKey = ''key'', omdb = catalog, omdb_calls = [], next_oid = 4,
      fault = (\<lambda>q. False), regex = literal_ci, group_hash = (\<lambda>g. 0)\<rparr>"

definition failing_queries :: "query \<Rightarrow> bool" where
  "failing_queries q = (q = QFindMoviesByGenre ''Action'' \<or> q = QFindAllMovies)"

definition faulty_world :: world where
  "faulty_world = rec_world\<lparr>fault := failing_queries\<rparr>"

definition action_last :: "string \<Rightarrow> nat" where
  "action_last g = (if g = ''Action'' then 1 else 0)"

definition tie_world :: world where
  "tie_world = rec_world\<lparr>group_hash := action_last\<rparr>"

section \<open>Trimming\<close>

lemma White_Space_encoded: "map utf8_encode White_Space = White_Space_utf8"
  apply (simp add: utf8_encode_def White_Space_def White_Space_utf8_def)
  apply code_simp
  done

lemma mongo_whitespace_encoded: "map utf8_encode mongo_whitespace = mongo_whitespace_utf8"
  apply (simp add: utf8_encode_def mongo_whitespace_def mongo_whitespace_utf8_def)
  apply code_simp
  done

lemma has_prefix_length: "has_prefix e s \<Longrightarrow> length e \<le> length s"
proof -
  assume "has_prefix e s"
  then have "length (take (length e) s) = length e" by (simp only: has_prefix_def)
  then show ?thesis by simp
qed

lemma has_prefix_append: "has_prefix e r \<Longrightarrow> has_prefix e (r @ suf)"
  using has_prefix_length[of e r] by (simp add: has_prefix_def)

lemma match_width_Nil [simp]: "match_width cutset [] = 0"
  by (induction cutset) (auto simp: has_prefix_def)

lemma match_width_0_iff:
  "[] \<notin> set cutset \<Longrightarrow>
   match_width cutset s = 0 \<longleftrightarrow> (\<forall>e \<in> set cutset. \<not> has_prefix e s)"
  by (induction cutset) auto

lemma trim_left_suffix: "\<exists>pre. s = pre @ trim_left cutset s"
proof (induction cutset s rule: trim_left.induct)
  case (1 cutset)
  show ?case by simp
next
  case (2 cutset c cs)
  show ?case
  proof (cases "match_width cutset (c # cs) = 0")
    case True
    then show ?thesis by simp
  next
    case False
    with 2 obtain pre where
      "drop (match_width cutset (c # cs) - 1) cs =
         pre @ trim_left cutset (drop (match_width cutset (c # cs) - 1) cs)"
      by blast
    then have "c # cs = (c # take (match_width cutset (c # cs) - 1) cs @ pre) @
                 trim_left cutset (drop (match_width cutset (c # cs) - 1) cs)"
      by (metis append_Cons append_assoc append_take_drop_id)
    with False show ?thesis by (simp del: append_assoc append_Cons) blast
  qed
qed

lemma trim_left_no_match: "match_width cutset (trim_left cutset s) = 0"
  by (induction cutset s rule: trim_left.induct) auto

lemma set_trim_left: "set (trim_left cutset s) \<subseteq> set s"
proof -
  from trim_left_suffix[of s cutset] obtain pre where "s = pre @ trim_left cutset s" ..
  then have "set s = set pre \<union> set (trim_left cutset s)" by (metis set_append)
  then show ?thesis by blast
qed

lemma trim_right_prefix: "\<exists>suf. s = trim_right cutset s @ suf"
proof -
  from trim_left_suffix[of "rev s" "map rev cutset"] obtain pre where
    "rev s = pre @ trim_left (map rev cutset) (rev s)" ..
  then have "rev (rev s) = rev (pre @ trim_left (map rev cutset) (rev s))" by (rule arg_cong)
  then have "s = trim_right cutset s @ rev pre"
    by (simp only: rev_rev_ident rev_append trim_right_def)
  then show ?thesis ..
qed

lemma set_trim_right: "set (trim_right cutset s) \<subseteq> set s"
  using set_trim_left[of "map rev cutset" "rev s"] by (simp add: trim_right_def)

lemma trim_both_ends:
  assumes "e \<in> set cutset" and "[] \<notin> set cutset"
  shows "\<not> has_prefix e (trim_right cutset (trim_left cutset s)) \<and>
         \<not> has_suffix e (trim_right cutset (trim_left cutset s))"
proof
  let ?t = "trim_left cutset s"
  from trim_right_prefix[of ?t cutset] obtain suf where t: "?t = trim_right cutset ?t @ suf" ..
  show "\<not> has_prefix e (trim_right cutset ?t)"
  proof
    assume "has_prefix e (trim_right cutset ?t)"
    then have "has_prefix e (trim_right cutset ?t @ suf)" by (rule has_prefix_append)
    with t have "has_prefix e ?t" by simp
    moreover from trim_left_no_match[of cutset s] assms have "\<not> has_prefix e ?t"
      by (auto simp: match_width_0_iff)
    ultimately show False by blast
  qed
next
  let ?t = "trim_left cutset s"
  have z: "match_width (map rev cutset) (rev (trim_right cutset ?t)) = 0"
    by (simp add: trim_right_def trim_left_no_match)
  from assms have "[] \<notin> set (map rev cutset)" by auto
  from match_width_0_iff[OF this, of "rev (trim_right cutset ?t)"] z
  have "\<forall>r \<in> set (map rev cutset). \<not> has_prefix r (rev (trim_right cutset ?t))"
    by blast
  with assms show "\<not> has_suffix e (trim_right cutset ?t)"
    by (auto simp: has_suffix_def)
qed

lemma mongo_trim_ends:
  assumes "e \<in> set mongo_whitespace_utf8"
  shows "\<not> has_prefix e (mongo_trim s) \<and> \<not> has_suffix e (mongo_trim s)"
proof -
  have "[] \<notin> set mongo_whitespace_utf8" by (simp add: mongo_whitespace_utf8_def)
  with assms show ?thesis unfolding mongo_trim_def by (rule trim_both_ends)
qed

lemma set_mongo_trim: "set (mongo_trim s) \<subseteq> set s"
  using set_trim_right[of mongo_whitespace_utf8 "trim_left mongo_whitespace_utf8 s"]
        set_trim_left[of mongo_whitespace_utf8 s]
  by (auto simp: mongo_trim_def)

lemma TrimSpace_examples:
  "TrimSpace ''Inception'' = ''Inception''"
  "TrimSpace ''2010'' = ''2010''"
  "TrimSpace ''Action, Sci-Fi'' = ''Action, Sci-Fi''"
  "TrimSpace ''Christopher Nolan'' = ''Christopher Nolan''"
  "TrimSpace ''A thief enters dreams.'' = ''A thief enters dreams.''"
  "TrimSpace ''N/A'' = ''N/A''"
  "TrimSpace ''148 min'' = ''148 min''"
  "TrimSpace ''8.8'' = ''8.8''"
  "TrimSpace ''   '' = []"
  "TrimSpace [] = []"
  by code_simp+

lemma TrimSpace_unicode_examples:
  "TrimSpace [CHR 0xC2, CHR 0xA0] = []"
  "TrimSpace ([CHR 0xE3, CHR 0x80, CHR 0x80] @ '' tt1 '' @ [CHR 0xE2, CHR 0x80, CHR 0xA8]) = ''tt1''"
  "TrimSpace [CHR 0xC2, CHR 0xC2, CHR 0xA0] = [CHR 0xC2]"
  "mongo_trim [CHR 0xC2, CHR 0xA0] = []"
  "mongo_trim [CHR 0xC2, CHR 0x85] = [CHR 0xC2, CHR 0x85]"
  by code_simp+

section \<open>Evaluation of the examples\<close>

lemmas example_defs =
  empty_world_def cached_world_def catalog_def inception_reply_def blank_title_reply_def
  no_genre_reply_def inception_def

lemmas cache_defs =
  GetOrCreateByIMDbID_def lookup_or_fetch_def insert_and_return_def InsertOne_def
  FindOne_imdb_id_def omdb_detail_def validate_and_build_def NewObjectID_def
  TrimSpace_examples

section \<open>The movie cache\<close>









text \<open>
  The record is stored under the identifier of the reply, not under the requested one.
  When the two differ, the second call misses again, fetches again and fails in the
  insert.
\<close>

lemma getOrCreate_twice_other_identifier:
  "fst (GetOrCreateByIMDbID empty_world ''TT1375666'') = Inr (inception 1) \<and>
   fst (GetOrCreateByIMDbID (snd (GetOrCreateByIMDbID empty_world ''TT1375666'')) ''TT1375666'')
     = Inl (CacheFailed DuplicateKey) \<and>
   omdb_calls (snd (GetOrCreateByIMDbID (snd (GetOrCreateByIMDbID empty_world ''TT1375666''))
     ''TT1375666'')) = [''TT1375666'', ''TT1375666'']"
  by (simp add: cache_defs example_defs)




text \<open>An identifier that consists of a no-break space (U+00A0) is blank as well.\<close>

lemma GetMovieDetails_no_break_space:
  "GetMovieDetails empty_world [CHR 0xC2, CHR 0xA0] = (Inl EmptyIMDbID, empty_world)"
  by (simp add: GetMovieDetails_def TrimSpace_unicode_examples)

text \<open>
  Claim C5, as the code has it. After a miss, with an API key and a decoded reply of
  status 200 that the provider does not flag as failed, \<^verbatim>\<open>GetOrCreateByIMDbID\<close> fails with
  one of the three "invalid movie data" errors whenever the external identifier, the
  title or the genre of the reply is the empty string, and the movies collection is
  left as it was. The fields are compared as received, before any trimming.
\<close>

theorem getOrCreate_rejects_empty_fields:
  assumes "FindOne_imdb_id w x = Inr None" and "apiKey w \<noteq> []"
    and "omdb w x = HttpReply 200 (Some r)" and "omdb_Response r \<noteq> ''False''"
    and "omdb_IMDbID r = [] \<or> omdb_Title r = [] \<or> omdb_Genre r = []"
  shows "fst (GetOrCreateByIMDbID w x) \<in> {Inl MissingIMDbID, Inl MissingTitle, Inl MissingGenre} \<and>
         movies (snd (GetOrCreateByIMDbID w x)) = movies w"
  using assms
  by (auto simp: GetOrCreateByIMDbID_def lookup_or_fetch_def omdb_detail_def
                 validate_and_build_def Let_def)

text \<open>The reply for \<^verbatim>\<open>tt0000004\<close> has no genre.\<close>

theorem getOrCreate_rejects_empty_fields_witness:
  "FindOne_imdb_id empty_world ''tt0000004'' = Inr None \<and> apiKey empty_world \<noteq> [] \<and>
   omdb empty_world ''tt0000004'' = HttpReply 200 (Some no_genre_reply) \<and>
   omdb_Response no_genre_reply \<noteq> ''False'' \<and> omdb_Genre no_genre_reply = [] \<and>
   fst (GetOrCreateByIMDbID empty_world ''tt0000004'') = Inl MissingGenre \<and>
   movies (snd (GetOrCreateByIMDbID empty_world ''tt0000004'')) = movies empty_world"
proof -
  have a: "FindOne_imdb_id empty_world ''tt0000004'' = Inr None"
    by (simp add: FindOne_imdb_id_def empty_world_def)
  have b: "apiKey empty_world \<noteq> []" by (simp add: empty_world_def)
  have c: "omdb empty_world ''tt0000004'' = HttpReply 200 (Some no_genre_reply)"
    by (simp add: empty_world_def catalog_def)
  have d: "omdb_Response no_genre_reply \<noteq> ''False''"
    by (simp add: no_genre_reply_def inception_reply_def)
  have e: "omdb_Genre no_genre_reply = []"
    by (simp add: no_genre_reply_def)
  have f: "fst (GetOrCreateByIMDbID empty_world ''tt0000004'') \<noteq> Inl MissingIMDbID \<and>
           fst (GetOrCreateByIMDbID empty_world ''tt0000004'') \<noteq> Inl MissingTitle"
    by (simp add: cache_defs example_defs)
  from getOrCreate_rejects_empty_fields [of empty_world "''tt0000004''" no_genre_reply]
       a b c d e f
  show ?thesis by simp
qed

text \<open>
  Claim C5 as stated fails for a field of white space only. The title of the reply for
  \<^verbatim>\<open>tt0000002\<close> is three spaces, empty after trimming; the call succeeds and a record
  with the empty title is persisted.
\<close>

theorem getOrCreate_rejects_empty_fields_counterexample:
  "omdb empty_world ''tt0000002'' = HttpReply 200 (Some blank_title_reply) \<and>
   TrimSpace (omdb_Title blank_title_reply) = [] \<and>
   fst (GetOrCreateByIMDbID empty_world ''tt0000002'') =
     Inr ((inception 1)\<lparr>IMDbID := ''tt0000002'', Title := []\<rparr>) \<and>
   movies (snd (GetOrCreateByIMDbID empty_world ''tt0000002'')) =
     [(inception 1)\<lparr>IMDbID := ''tt0000002'', Title := []\<rparr>]"
  by (simp add: cache_defs example_defs)

text \<open>
  Claim C6, as the code has it. Once one writer's insert has succeeded, the insert step
  of a second writer holding a record with the same external identifier fails with the
  duplicate-key error wrapped as "failed to cache movie data"; the store is not touched
  and the lookup is not tried again.
\<close>

theorem second_writer_gets_error:
  assumes "insert_and_return w a = (Inr a', w1)" and "IMDbID b = IMDbID a"
  shows "insert_and_return w1 b = (Inl (CacheFailed DuplicateKey), w1)"
  using assms
  by (auto simp: insert_and_return_def InsertOne_def split: if_splits)

text \<open>Two records for Inception with different identifiers, inserted one after the
  other into the empty store.\<close>

theorem second_writer_gets_error_witness:
  "insert_and_return empty_world (inception 1)
     = (Inr (inception 1), empty_world\<lparr>movies := [inception 1]\<rparr>) \<and>
   IMDbID (inception 2) = IMDbID (inception 1) \<and>
   insert_and_return (empty_world\<lparr>movies := [inception 1]\<rparr>) (inception 2)
     = (Inl (CacheFailed DuplicateKey), empty_world\<lparr>movies := [inception 1]\<rparr>)"
proof -
  have a: "insert_and_return empty_world (inception 1)
           = (Inr (inception 1), empty_world\<lparr>movies := [inception 1]\<rparr>)"
    by (simp add: insert_and_return_def InsertOne_def empty_world_def)
  have b: "IMDbID (inception 2) = IMDbID (inception 1)" by (simp add: inception_def)
  from second_writer_gets_error [OF a b] a b show ?thesis by simp
qed

text \<open>
  Claim C6 as stated fails in the race it describes. Both callers miss and fetch before
  either inserts; the first insert succeeds, the second caller gets the duplicate-key
  error instead of the record that is now present.
\<close>

theorem second_writer_gets_error_counterexample:
  "fst race_first = Insert (inception 1) \<and>
   fst race_second = Insert (inception 2) \<and>
   fst race_first_done = Inr (inception 1) \<and>
   fst race_second_done = Inl (CacheFailed DuplicateKey) \<and>
   movies (snd race_second_done) = [inception 1]"
  by (simp add: race_first_def race_second_def race_first_done_def race_second_done_def
                cache_defs example_defs)

section \<open>Sorting\<close>

lemma set_insert_by [simp]: "set (insert_by p x xs) = insert x (set xs)"
  by (induction xs) auto

lemma sort_by_Nil [simp]: "sort_by p [] = []"
  by (simp add: sort_by_def)

lemma sort_by_Cons [simp]: "sort_by p (x # xs) = insert_by p x (sort_by p xs)"
  by (simp add: sort_by_def)

lemma set_sort_by [simp]: "set (sort_by p xs) = set xs"
  by (induction xs) auto

lemma length_insert_by [simp]: "length (insert_by p x xs) = Suc (length xs)"
  by (induction xs) auto

lemma length_sort_by [simp]: "length (sort_by p xs) = length xs"
  by (induction xs) auto

lemma distinct_map_insert_by:
  "distinct (map f (insert_by p x xs)) \<longleftrightarrow> f x \<notin> f ` set xs \<and> distinct (map f xs)"
  by (induction xs) auto

lemma distinct_map_sort_by [simp]: "distinct (map f (sort_by p xs)) = distinct (map f xs)"
  by (induction xs) (auto simp: distinct_map_insert_by)

lemma sorted_insert_by_key:
  fixes f :: "'a \<Rightarrow> nat"
  assumes "sorted_wrt (\<lambda>a b. f b \<le> f a) xs"
  shows "sorted_wrt (\<lambda>a b. f b \<le> f a) (insert_by (\<lambda>a b. f b < f a) x xs)"
  using assms by (induction xs) (auto simp: less_imp_le)

lemma sorted_sort_by_key:
  fixes f :: "'a \<Rightarrow> nat"
  shows "sorted_wrt (\<lambda>a b. f b \<le> f a) (sort_by (\<lambda>a b. f b < f a) xs)"
  by (induction xs) (simp_all add: sorted_insert_by_key)

section \<open>The recommendation engine\<close>

lemma genre_query_excludes:
  assumes "GetMoviesByGenreExcludingIDs w g ex lim = Inr ms"
  shows "\<forall>m \<in> set ms. ID m \<notin> set ex"
  using assms
  by (auto simp: GetMoviesByGenreExcludingIDs_def sort_imdb_rating_desc_def Let_def
           split: if_splits option.splits dest: in_set_takeD)

lemma set_append_movies: "set (append_movies lim recs ms) \<subseteq> set recs \<union> set ms"
proof (induction ms arbitrary: recs)
  case Nil
  then show ?case by simp
next
  case (Cons a ms)
  from Cons.IH[of "recs @ [a]"] show ?case by auto
qed

lemma length_append_movies:
  "int (length (append_movies lim recs ms)) \<le> max lim (int (length recs))"
proof (induction ms arbitrary: recs)
  case Nil
  then show ?case by simp
next
  case (Cons a ms)
  from Cons.IH[of "recs @ [a]"] show ?case by auto
qed

lemma genre_loop_excludes:
  "\<forall>m \<in> set recs. ID m \<notin> set ex \<Longrightarrow> \<forall>m \<in> set (genre_loop w ex lim recs gs). ID m \<notin> set ex"
proof (induction gs arbitrary: recs)
  case Nil
  then show ?case by simp
next
  case (Cons g gs)
  show ?case
  proof (cases "lim \<le> int (length recs)")
    case True
    with Cons.prems show ?thesis by simp
  next
    case False
    show ?thesis
    proof (cases "GetMoviesByGenreExcludingIDs w g ex (lim - int (length recs))")
      case (Inl e)
      with False Cons show ?thesis by simp
    next
      case (Inr found)
      from genre_query_excludes[OF Inr] Cons.prems set_append_movies[of lim recs found]
      have "\<forall>m \<in> set (append_movies lim recs found). ID m \<notin> set ex" by blast
      from Cons.IH[OF this] False Inr show ?thesis by simp
    qed
  qed
qed

lemma length_genre_loop:
  "int (length (genre_loop w ex lim recs gs)) \<le> max lim (int (length recs))"
proof (induction gs arbitrary: recs)
  case Nil
  then show ?case by simp
next
  case (Cons g gs)
  show ?case
  proof (cases "lim \<le> int (length recs)")
    case True
    then show ?thesis by simp
  next
    case False
    show ?thesis
    proof (cases "GetMoviesByGenreExcludingIDs w g ex (lim - int (length recs))")
      case (Inl e)
      with False Cons.IH[of recs] show ?thesis by simp
    next
      case (Inr found)
      from Cons.IH[of "append_movies lim recs found"] length_append_movies[of lim recs found]
        False Inr
      show ?thesis by simp
    qed
  qed
qed

lemma fallback_loop_excludes:
  "\<forall>m \<in> set acc. ID m \<notin> set ex \<Longrightarrow> \<forall>m \<in> set (fallback_loop ex lim acc ms). ID m \<notin> set ex"
proof (induction ms arbitrary: acc)
  case Nil
  then show ?case by simp
next
  case (Cons a ms)
  from Cons.IH[of "acc @ [a]"] Cons.IH[of acc] Cons.prems show ?case by auto
qed

lemma fallback_excludes: "\<forall>m \<in> set (getFallbackRecommendations w ex lim). ID m \<notin> set ex"
  using fallback_loop_excludes[of "[]" ex lim]
  by (auto simp: getFallbackRecommendations_def split: sum.splits)

lemma limitResults_subset: "limitResults ms lim = Inr ms' \<Longrightarrow> set ms' \<subseteq> set ms"
  by (auto simp: limitResults_def split: if_splits dest: in_set_takeD)

lemma set_first_seen [simp]: "set (first_seen xs) = set xs"
  by (simp add: first_seen_def)

lemma distinct_first_seen [simp]: "distinct (first_seen xs)"
  by (simp add: first_seen_def)

lemma recommendations_exclude:
  assumes "GetMoviesToExclude w u = Inr ex" and "GetRecommendations w u lim = Inr ms"
  shows "\<forall>m \<in> set ms. ID m \<notin> set ex"
proof -
  from assms obtain gs where gs: "GetHighRatedGenres w u 4 = Inr gs"
    by (auto simp: GetRecommendations_def split: sum.splits)
  let ?recs = "generateGenreBasedRecommendations w gs ex lim"
  let ?all = "if int (length ?recs) < lim
              then ?recs @ getFallbackRecommendations w ex (lim - int (length ?recs)) else ?recs"
  have g: "\<forall>m \<in> set ?recs. ID m \<notin> set ex"
    unfolding generateGenreBasedRecommendations_def
    by (rule genre_loop_excludes) simp
  with fallback_excludes[of w ex] have "\<forall>m \<in> set ?all. ID m \<notin> set ex" by auto
  moreover from assms gs have "limitResults ?all lim = Inr ms"
    by (simp add: GetRecommendations_def Let_def)
  ultimately show ?thesis using limitResults_subset by blast
qed

text \<open>
  Claim C3. When the two queries behind it succeed, \<^verbatim>\<open>GetMoviesToExclude\<close> returns a list
  without duplicates whose elements are exactly the movie identifiers of the user's
  ratings, whatever their value, and of the user's watchlist entries; and no movie with
  one of these identifiers is in any list that \<^verbatim>\<open>GetRecommendations\<close> returns for this user.
\<close>

theorem exclusions_never_recommended:
  assumes "\<not> fault w (QFindRatings u)" and "\<not> fault w (QFindWatchlists u)"
  shows "\<exists>ex. GetMoviesToExclude w u = Inr ex \<and> distinct ex \<and>
           set ex = r_MovieID ` {r \<in> set (ratings w). r_UserID r = u} \<union>
                    wl_MovieID ` {e \<in> set (watchlists w). wl_UserID e = u} \<and>
           (\<forall>limit ms. GetRecommendations w u limit = Inr ms \<longrightarrow>
              (\<forall>m \<in> set ms. ID m \<notin> set ex))"
proof -
  let ?ex = "first_seen (map r_MovieID (filter (\<lambda>r. r_UserID r = u) (ratings w)) @
                         map wl_MovieID (filter (\<lambda>e. wl_UserID e = u) (watchlists w)))"
  from assms have ex: "GetMoviesToExclude w u = Inr ?ex"
    by (simp add: GetMoviesToExclude_def GetRatedMovieIDs_def GetWatchlistMovieIDs_def)
  have "set ?ex = r_MovieID ` {r \<in> set (ratings w). r_UserID r = u} \<union>
                  wl_MovieID ` {e \<in> set (watchlists w). wl_UserID e = u}"
    by auto
  with ex recommendations_exclude[OF ex] show ?thesis
    by (intro exI[of _ ?ex]) (simp del: set_append set_map set_filter)
qed

text \<open>User 7 of the example store: movies 1 (rated) and 4 (on the watchlist) are excluded,
  and the three recommendations are movies 2, 3 and 2.\<close>

theorem exclusions_never_recommended_witness:
  "\<not> fault rec_world (QFindRatings 7) \<and> \<not> fault rec_world (QFindWatchlists 7) \<and>
   GetMoviesToExclude rec_world 7 = Inr [1, 4] \<and>
   GetRecommendations rec_world 7 3 =
     Inr [film 2 ''Action, Sci-Fi'' ''7.1'', film 3 ''Sci-Fi'' ''N/A'',
          film 2 ''Action, Sci-Fi'' ''7.1''] \<and>
   ID (film 2 ''Action, Sci-Fi'' ''7.1'') \<notin> set [1, 4] \<and>
   ID (film 3 ''Sci-Fi'' ''N/A'') \<notin> set [1, 4]"
proof -
  have a: "\<not> fault rec_world (QFindRatings 7)" by code_simp
  have b: "\<not> fault rec_world (QFindWatchlists 7)" by code_simp
  have c: "GetMoviesToExclude rec_world 7 = Inr [1, 4]" by code_simp
  have d: "GetRecommendations rec_world 7 3 =
     Inr [film 2 ''Action, Sci-Fi'' ''7.1'', film 3 ''Sci-Fi'' ''N/A'',
          film 2 ''Action, Sci-Fi'' ''7.1'']" by code_simp
  from exclusions_never_recommended [OF a b] obtain ex where
    ex: "GetMoviesToExclude rec_world 7 = Inr ex" and
    all: "\<forall>limit ms. GetRecommendations rec_world 7 limit = Inr ms \<longrightarrow>
              (\<forall>m \<in> set ms. ID m \<notin> set ex)"
    by blast
  from ex c have "ex = [1, 4]" by simp
  with all d have e: "\<forall>m \<in> set [film 2 ''Action, Sci-Fi'' ''7.1'', film 3 ''Sci-Fi'' ''N/A'',
          film 2 ''Action, Sci-Fi'' ''7.1'']. ID m \<notin> set [1, 4]"
    by blast
  have f: "ID (film 2 ''Action, Sci-Fi'' ''7.1'') \<notin> set [1, 4]" using e by simp
  have g: "ID (film 3 ''Sci-Fi'' ''N/A'') \<notin> set [1, 4]" using e by simp
  from a b c d f g show ?thesis by blast
qed

lemma genre_loop_skip:
  "fault w (QFindMoviesByGenre g) \<Longrightarrow>
   genre_loop w ex lim recs (g # rest) = genre_loop w ex lim recs rest"
  by (cases rest) (simp_all add: GetMoviesByGenreExcludingIDs_def)

text \<open>
  Claim C8, as the code has it. For a limit that is not negative, once the preferred
  genres and the exclusions have been computed, \<^verbatim>\<open>GetRecommendations\<close> succeeds whatever the
  candidate queries do: a genre whose query fails is skipped, and when the fallback query
  fails the result is the list the genre phase has assembled.
\<close>

theorem query_failures_are_swallowed:
  assumes "0 \<le> limit" and "GetHighRatedGenres w u 4 = Inr gs"
    and "GetMoviesToExclude w u = Inr ex"
  shows "(\<exists>ms. GetRecommendations w u limit = Inr ms) \<and>
         (fault w QFindAllMovies \<longrightarrow>
            GetRecommendations w u limit =
              Inr (generateGenreBasedRecommendations w gs ex limit)) \<and>
         (\<forall>g rest recs. fault w (QFindMoviesByGenre g) \<longrightarrow>
            genre_loop w ex limit recs (g # rest) = genre_loop w ex limit recs rest)"
proof (intro conjI impI allI)
  show "\<exists>ms. GetRecommendations w u limit = Inr ms"
    using assms by (simp add: GetRecommendations_def Let_def limitResults_def)
next
  assume f: "fault w QFindAllMovies"
  have "int (length (generateGenreBasedRecommendations w gs ex limit)) \<le> limit"
    using length_genre_loop[of w ex limit "[]" gs] assms(1)
    by (simp add: generateGenreBasedRecommendations_def)
  with f assms show "GetRecommendations w u limit =
      Inr (generateGenreBasedRecommendations w gs ex limit)"
    by (simp add: GetRecommendations_def Let_def limitResults_def
                  getFallbackRecommendations_def FindAll_def)
next
  fix g rest recs
  assume "fault w (QFindMoviesByGenre g)"
  then show "genre_loop w ex limit recs (g # rest) = genre_loop w ex limit recs rest"
    by (rule genre_loop_skip)
qed

text \<open>User 7 when the query for the genre Action and the query for all movies fail.\<close>

theorem query_failures_are_swallowed_witness:
  "(0::int) \<le> 10 \<and> GetHighRatedGenres faulty_world 7 4 = Inr [''Action'', ''Sci-Fi''] \<and>
   GetMoviesToExclude faulty_world 7 = Inr [1, 4] \<and>
   fault faulty_world QFindAllMovies \<and> fault faulty_world (QFindMoviesByGenre ''Action'') \<and>
   GetRecommendations faulty_world 7 10 =
     Inr (generateGenreBasedRecommendations faulty_world [''Action'', ''Sci-Fi''] [1, 4] 10) \<and>
   genre_loop faulty_world [1, 4] 10 [] [''Action'', ''Sci-Fi''] =
     genre_loop faulty_world [1, 4] 10 [] [''Sci-Fi'']"
proof -
  have a: "(0::int) \<le> 10" by simp
  have b: "GetHighRatedGenres faulty_world 7 4 = Inr [''Action'', ''Sci-Fi'']" by code_simp
  have c: "GetMoviesToExclude faulty_world 7 = Inr [1, 4]" by code_simp
  have d: "fault faulty_world QFindAllMovies" by code_simp
  have e: "fault faulty_world (QFindMoviesByGenre ''Action'')" by code_simp
  note t = query_failures_are_swallowed [OF a b c]
  from t d have f: "GetRecommendations faulty_world 7 10 =
     Inr (generateGenreBasedRecommendations faulty_world [''Action'', ''Sci-Fi''] [1, 4] 10)"
    by blast
  from t e have g: "genre_loop faulty_world [1, 4] 10 [] [''Action'', ''Sci-Fi''] =
     genre_loop faulty_world [1, 4] 10 [] [''Sci-Fi'']"
    by blast
  from a b c d e f g show ?thesis by blast
qed

text \<open>
  Claim C8 as stated fails: with the query for the genre Action and the fallback query
  both failing, the call for user 7 returns the two candidates of the genre Sci-Fi as a
  success.
\<close>

theorem query_failures_are_swallowed_counterexample:
  "fault faulty_world (QFindMoviesByGenre ''Action'') \<and> fault faulty_world QFindAllMovies \<and>
   GetRecommendations faulty_world 7 10 =
     Inr [film 3 ''Sci-Fi'' ''N/A'', film 2 ''Action, Sci-Fi'' ''7.1'']"
  by code_simp

lemma genre_loop_limit_reached:
  "lim \<le> int (length recs) \<Longrightarrow> genre_loop w ex lim recs gs = recs"
  by (cases gs) simp_all

text \<open>
  Claim C9, as the code has it. No limit is rejected as a caller error. With limit 0,
  once the preferred genres and the exclusions have been computed, the result is the
  empty list and no error.
\<close>

theorem zero_limit_returns_empty:
  assumes "GetHighRatedGenres w u 4 = Inr gs" and "GetMoviesToExclude w u = Inr ex"
  shows "GetRecommendations w u 0 = Inr []"
  using assms
  by (simp add: GetRecommendations_def generateGenreBasedRecommendations_def
                genre_loop_limit_reached limitResults_def)

text \<open>A negative limit reaches \<^verbatim>\<open>movies[:limit]\<close> in \<^verbatim>\<open>limitResults\<close>, which panics.\<close>

lemma negative_limit_panics:
  assumes "GetHighRatedGenres w u 4 = Inr gs" and "GetMoviesToExclude w u = Inr ex"
    and "limit < 0"
  shows "GetRecommendations w u limit = Inl PanicSliceBounds"
  using assms
  by (simp add: GetRecommendations_def generateGenreBasedRecommendations_def
                genre_loop_limit_reached limitResults_def)

text \<open>User 7 of the example store with limit 0.\<close>

theorem zero_limit_returns_empty_witness:
  "GetHighRatedGenres rec_world 7 4 = Inr [''Action'', ''Sci-Fi''] \<and>
   GetMoviesToExclude rec_world 7 = Inr [1, 4] \<and>
   GetRecommendations rec_world 7 0 = Inr []"
proof -
  have a: "GetHighRatedGenres rec_world 7 4 = Inr [''Action'', ''Sci-Fi'']" by code_simp
  have b: "GetMoviesToExclude rec_world 7 = Inr [1, 4]" by code_simp
  from zero_limit_returns_empty [OF a b] a b show ?thesis by simp
qed

text \<open>Claim C9 as stated fails at limit 0: the call for user 9 returns the empty list.\<close>

theorem zero_limit_returns_empty_counterexample:
  "GetRecommendations rec_world 9 0 = Inr []"
  by code_simp

text \<open>
  Claim C2 at a failing input. User 9 has no ratings, so all four recommendations come
  from the fallback: they are in the order of the store, ratings 8.0, 7.1, N/A, 8.8, not
  in descending order of the rating. In the genre phase the query for Sci-Fi puts the
  movie rated N/A in front of the movie rated 7.1, since the rating is compared as a
  string.
\<close>

theorem fallback_keeps_insertion_order:
  "map_sum id (map IMDbRating) (GetRecommendations rec_world 9 4) =
     Inr [''8.0'', ''7.1'', ''N/A'', ''8.8''] \<and>
   map_sum id (map IMDbRating) (GetMoviesByGenreExcludingIDs rec_world ''Sci-Fi'' [1, 4] 10) =
     Inr [''N/A'', ''7.1'']"
  by code_simp

text \<open>
  Claim C7 at a failing input. The preferred genres of user 7 are Action and Sci-Fi, and
  movie 2 is tagged with both: with limit 3 it is recommended for Action and again for
  Sci-Fi.
\<close>

theorem movie_recommended_twice:
  "GetHighRatedGenres rec_world 7 4 = Inr [''Action'', ''Sci-Fi''] \<and>
   GetRecommendations rec_world 7 3 =
     Inr [film 2 ''Action, Sci-Fi'' ''7.1'', film 3 ''Sci-Fi'' ''N/A'',
          film 2 ''Action, Sci-Fi'' ''7.1'']"
  by code_simp

section \<open>Preferred genres\<close>

lemma distinct_sort_by [simp]: "distinct (sort_by p xs) = distinct xs"
  using distinct_map_sort_by[of "\<lambda>x. x" p xs] by simp

lemma split_on_nonempty [simp]: "split_on d s \<noteq> []"
  by (induction s) (auto split: list.splits)

lemma split_on_no_delimiter: "p \<in> set (split_on d s) \<Longrightarrow> d \<notin> set p"
  by (induction s arbitrary: p) (auto split: if_splits list.splits)

lemma genre_field_tokens_shape:
  assumes "g \<in> set (genre_field_tokens s)"
  shows "g \<noteq> [] \<and> CHR '','' \<notin> set g \<and>
         (\<forall>e \<in> set mongo_whitespace_utf8. \<not> has_prefix e g \<and> \<not> has_suffix e g)"
proof -
  from assms obtain p where p: "p \<in> set (split_on CHR '','' s)" and g: "g = mongo_trim p"
    and ne: "g \<noteq> []"
    by (auto simp: genre_field_tokens_def)
  from split_on_no_delimiter[OF p] set_mongo_trim[of p] g have "CHR '','' \<notin> set g" by auto
  with ne mongo_trim_ends[of _ p] g show ?thesis by simp
qed

lemma genre_tokens_shape:
  assumes "g \<in> set (genre_tokens w u t)"
  shows "g \<noteq> [] \<and> CHR '','' \<notin> set g \<and>
         (\<forall>e \<in> set mongo_whitespace_utf8. \<not> has_prefix e g \<and> \<not> has_suffix e g)"
  using assms genre_field_tokens_shape
  by (auto simp: genre_tokens_def Let_def)

lemma map_fst_group_count:
  "map fst (group_count w toks) =
     sort_by (\<lambda>a b. group_hash w a < group_hash w b) (first_seen toks)"
  by (simp add: group_count_def comp_def)

lemma snd_group_count:
  "x \<in> set (group_count w toks) \<Longrightarrow> snd x = count_list toks (fst x)"
  by (auto simp: group_count_def)

lemma sorted_sort_count_desc: "sorted_wrt (\<lambda>a b. snd b \<le> snd a) (sort_count_desc gs)"
  unfolding sort_count_desc_def by (rule sorted_sort_by_key)

text \<open>
  Claim C10, as the code has it. When the aggregation does not fail,
  \<^verbatim>\<open>GetHighRatedGenres\<close> returns each genre token of the qualifying ratings once, in an
  order that descends in the number of occurrences; every returned genre is non-empty,
  holds no comma and neither starts nor ends with a character that \<^verbatim>\<open>$trim\<close> removes;
  without qualifying
  ratings the result is the empty list; and the genre field \<^verbatim>\<open>"  Action ,Sci-Fi ,"\<close>
  yields the tokens Action and Sci-Fi. Nothing is said about the order of genres
  with equal counts.
\<close>

theorem preferred_genres_by_count:
  assumes "\<not> fault w (QAggregateGenres u)"
  shows "\<exists>gs. GetHighRatedGenres w u t = Inr gs \<and> distinct gs \<and>
           set gs = set (genre_tokens w u t) \<and>
           sorted_wrt (\<lambda>a b. count_list (genre_tokens w u t) b
                              \<le> count_list (genre_tokens w u t) a) gs \<and>
           (qualifying_ratings w u t = [] \<longrightarrow> gs = []) \<and>
           (\<forall>g \<in> set gs. g \<noteq> [] \<and> CHR '','' \<notin> set g \<and>
              (\<forall>e \<in> set mongo_whitespace_utf8. \<not> has_prefix e g \<and> \<not> has_suffix e g)) \<and>
           genre_field_tokens ''  Action ,Sci-Fi ,'' = [''Action'', ''Sci-Fi'']"
proof -
  let ?toks = "genre_tokens w u t"
  let ?groups = "group_count w ?toks"
  let ?gs = "map fst (sort_count_desc ?groups)"
  from assms have res: "GetHighRatedGenres w u t = Inr ?gs"
    by (simp add: GetHighRatedGenres_def)
  have "distinct (map fst ?groups)" by (simp add: map_fst_group_count)
  then have d: "distinct ?gs" by (simp add: sort_count_desc_def)
  have "set ?gs = fst ` set ?groups" by (simp add: sort_count_desc_def)
  also have "\<dots> = set (map fst ?groups)" by simp
  also have "\<dots> = set ?toks" by (simp only: map_fst_group_count set_sort_by set_first_seen)
  finally have s: "set ?gs = set ?toks" .
  have "sorted_wrt (\<lambda>a b. count_list ?toks (fst b) \<le> count_list ?toks (fst a))
          (sort_count_desc ?groups)"
  proof (rule sorted_wrt_mono_rel[OF _ sorted_sort_count_desc])
    fix x y
    assume "x \<in> set (sort_count_desc ?groups)" and "y \<in> set (sort_count_desc ?groups)"
      and "snd y \<le> snd x"
    then show "count_list ?toks (fst y) \<le> count_list ?toks (fst x)"
      using snd_group_count[of x w ?toks] snd_group_count[of y w ?toks]
      by (simp add: sort_count_desc_def)
  qed
  then have o: "sorted_wrt (\<lambda>a b. count_list ?toks b \<le> count_list ?toks a) ?gs"
    by (simp add: sorted_wrt_map)
  have e: "qualifying_ratings w u t = [] \<longrightarrow> ?gs = []"
    by (simp add: genre_tokens_def group_count_def sort_count_desc_def first_seen_def)
  have sh: "\<forall>g \<in> set ?gs. g \<noteq> [] \<and> CHR '','' \<notin> set g \<and>
              (\<forall>e \<in> set mongo_whitespace_utf8. \<not> has_prefix e g \<and> \<not> has_suffix e g)"
    using genre_tokens_shape s by blast
  have ex: "genre_field_tokens ''  Action ,Sci-Fi ,'' = [''Action'', ''Sci-Fi'']"
    by code_simp
  from res d s o e sh ex show ?thesis by blast
qed

text \<open>A piece that consists of a no-break space is trimmed to the empty string and
  discarded; a next-line character (U+0085) is not in the set of \<^verbatim>\<open>$trim\<close> and stays.\<close>

lemma genre_field_tokens_unicode:
  "genre_field_tokens (''Action,'' @ [CHR 0xC2, CHR 0xA0]) = [''Action'']"
  "genre_field_tokens (''Action,'' @ [CHR 0xC2, CHR 0x85]) = [''Action'', [CHR 0xC2, CHR 0x85]]"
  by code_simp+

text \<open>User 7 of the example store prefers Action and Sci-Fi; user 9 has no ratings.\<close>

theorem preferred_genres_by_count_witness:
  "\<not> fault rec_world (QAggregateGenres 7) \<and>
   qualifying_ratings rec_world 9 4 = [] \<and>
   GetHighRatedGenres rec_world 7 4 = Inr [''Action'', ''Sci-Fi''] \<and>
   GetHighRatedGenres rec_world 9 4 = Inr [] \<and>
   distinct [''Action'', ''Sci-Fi''] \<and>
   genre_field_tokens ''  Action ,Sci-Fi ,'' = [''Action'', ''Sci-Fi'']"
proof -
  have a: "\<not> fault rec_world (QAggregateGenres 7)" by code_simp
  have a': "\<not> fault rec_world (QAggregateGenres 9)" by code_simp
  have b: "qualifying_ratings rec_world 9 4 = []" by code_simp
  have c: "GetHighRatedGenres rec_world 7 4 = Inr [''Action'', ''Sci-Fi'']" by code_simp
  from preferred_genres_by_count [OF a, of 4] c
  have d: "distinct [''Action'', ''Sci-Fi''] \<and>
           genre_field_tokens ''  Action ,Sci-Fi ,'' = [''Action'', ''Sci-Fi'']"
    by auto
  from preferred_genres_by_count [OF a', of 4] b
  have e: "GetHighRatedGenres rec_world 9 4 = Inr []" by auto
  from a b c d e show ?thesis by blast
qed

text \<open>
  Claim C10 as stated fails in the tie-break. In \<open>tie_world\<close> the server emits the group
  of Sci-Fi before the group of Action. Both genres occur once and Action is met first,
  yet Sci-Fi is returned first: the pipeline sorts by the count and by nothing else.
\<close>

theorem preferred_genres_by_count_counterexample:
  "genre_tokens tie_world 7 4 = [''Action'', ''Sci-Fi''] \<and>
   count_list (genre_tokens tie_world 7 4) ''Action'' =
     count_list (genre_tokens tie_world 7 4) ''Sci-Fi'' \<and>
   GetHighRatedGenres tie_world 7 4 = Inr [''Sci-Fi'', ''Action'']"
  by code_simp

end
